theory Spec2Isabelle
  imports Complex_Main
begin

text \<open>
  The Shiptivity API keeps cards (``clients'') in three lanes, each card with a rank
  in its lane. The repository holds two versions of the server, src/server.js and
  src/unnamed/part\_000; they share the validators and the GET handlers and differ in
  the handler of \<^verbatim>\<open>PUT /api/v1/clients/:id\<close>, which moves a card. Both versions
  are modelled, the shared parts once.
\<close>

section \<open>Data model\<close>

text \<open>
  A row of the table \<^verbatim>\<open>clients ( id INTEGER PRIMARY KEY, name TEXT NOT NULL,
  description TEXT, status TEXT, priority INTEGER )\<close>, which is also the JavaScript
  object that \<^verbatim>\<open>select * from clients\<close> yields for it. The column \<^verbatim>\<open>id\<close> is
  named \<open>client_id\<close> here, since \<open>id\<close> is the identity function of HOL.
\<close>

record client =
  client_id :: int
  name :: string
  description :: string
  status :: string
  priority :: int

text \<open>The object \<^verbatim>\<open>{ 'message': ..., 'long_message': ... }\<close> of an error response.\<close>

record messageObj =
  message :: string
  long_message :: string

text \<open>
  What a handler does with \<^verbatim>\<open>res\<close>, in order: every call
  \<^verbatim>\<open>res.status(n).send(b)\<close> is one \<open>Send n b\<close>; a \<^verbatim>\<open>TypeError\<close> raised by reading
  a property of \<^verbatim>\<open>undefined\<close> ends the handler and is the last event. A handler that
  returns without sending leaves no event.
\<close>

datatype body = Message messageObj | Clients "client list" | Row "client option"

datatype event = Send nat body | TypeError

text \<open>
  JavaScript values, as far as \<^verbatim>\<open>validatePriority\<close> looks at them: its parameter is
  documented as \<^verbatim>\<open>any\<close>. Finite numbers are rationals here (every finite double is one).
\<close>

datatype number = NaN | Infinity | NegInfinity | Finite rat

datatype jsval = Undefined | Null | Boolean bool | Number number | String_js string | Object_js

text \<open>ToBoolean, which \<^verbatim>\<open>if (v)\<close>, \<^verbatim>\<open>!v\<close> and \<^verbatim>\<open>&&\<close> apply.\<close>

fun truthy :: "jsval \<Rightarrow> bool" where
  "truthy Undefined = False"
| "truthy Null = False"
| "truthy (Boolean b) = b"
| "truthy (Number NaN) = False"
| "truthy (Number (Finite r)) = (r \<noteq> 0)"
| "truthy (Number _) = True"
| "truthy (String_js s) = (s \<noteq> [])"
| "truthy Object_js = True"

text \<open>\<^verbatim>\<open>Number.isNaN(v)\<close>: true for the number NaN only, without coercion.\<close>

definition Number_isNaN :: "jsval \<Rightarrow> bool" where
  "Number_isNaN v = (v = Number NaN)"

text \<open>
  The request as the update handler reads it. \<^verbatim>\<open>parseInt(req.params.id, 10)\<close> is an
  integer or NaN: \<open>int option\<close>, \<open>None\<close> for NaN. The body's \<^verbatim>\<open>status\<close> is a string or
  absent, its \<^verbatim>\<open>priority\<close> an integer number or absent (\<open>None\<close>); other JSON values
  of the two fields are outside this model.
\<close>

definition truthy_status :: "string option \<Rightarrow> bool" where
  "truthy_status s = (case s of None \<Rightarrow> False | Some t \<Rightarrow> t \<noteq> [])"

definition truthy_priority :: "int option \<Rightarrow> bool" where
  "truthy_priority p = (case p of None \<Rightarrow> False | Some n \<Rightarrow> n \<noteq> 0)"

definition js_of_priority :: "int option \<Rightarrow> jsval" where
  "js_of_priority p = (case p of None \<Rightarrow> Undefined | Some n \<Rightarrow> Number (Finite (of_int n)))"

text \<open>ToNumber of a boolean, which \<^verbatim>\<open><\<close> and \<^verbatim>\<open>>\<close> apply to a boolean operand.\<close>

definition to_number :: "bool \<Rightarrow> int" where
  "to_number b = (if b then 1 else 0)"

section \<open>Validator\<close>

definition invalid_id_not_integer :: messageObj where
  "invalid_id_not_integer =
     \<lparr>message = ''Invalid id provided.'', long_message = ''Id can only be integer.''\<rparr>"

definition invalid_id_not_found :: messageObj where
  "invalid_id_not_found =
     \<lparr>message = ''Invalid id provided.'', long_message = ''Cannot find client with that id.''\<rparr>"

definition invalid_priority :: messageObj where
  "invalid_priority =
     \<lparr>message = ''Invalid priority provided.'',
      long_message = ''Priority can only be positive integer.''\<rparr>"

definition invalid_status :: messageObj where
  "invalid_status =
     \<lparr>message = ''Invalid status provided.'',
      long_message =
        ''Status can only be one of the following: [backlog | in-progress | complete].''\<rparr>"

text \<open>
  \<^verbatim>\<open>validateId\<close> (the same in both files): \<open>Inl m\<close> is \<^verbatim>\<open>{valid: false, messageObj: m}\<close>,
  \<open>Inr ()\<close> is \<^verbatim>\<open>{valid: true}\<close>. The store is the list of rows in table order.
\<close>

definition validateId :: "client list \<Rightarrow> int option \<Rightarrow> messageObj + unit" where
  "validateId db i =
     (case i of
        None \<Rightarrow> Inl invalid_id_not_integer
      | Some n \<Rightarrow>
          (case find (\<lambda>c. client_id c = n) db of
             None \<Rightarrow> Inl invalid_id_not_found
           | Some _ \<Rightarrow> Inr ()))"

text \<open>
  \<^verbatim>\<open>validatePriority\<close> (the same in both files):
  \<^verbatim>\<open>if (Number.isNaN(priority) && priority) return {valid: false, ...}; return {valid: true}\<close>.
\<close>

definition validatePriority :: "jsval \<Rightarrow> messageObj + unit" where
  "validatePriority p =
     (if Number_isNaN p \<and> truthy p then Inl invalid_priority else Inr ())"

definition valid_lane :: "string \<Rightarrow> bool" where
  "valid_lane s = (s = ''backlog'' \<or> s = ''in-progress'' \<or> s = ''complete'')"

section \<open>Record store\<close>

text \<open>
  \<^verbatim>\<open>UPDATE clients SET status = ?, priority = ? WHERE id = ?\<close>, run once, and
  \<^verbatim>\<open>updateAllClients\<close>, which runs it for every element of the list in order. No
  transaction encloses the runs in either file.
\<close>

definition updateClient :: "string \<Rightarrow> int \<Rightarrow> int \<Rightarrow> client list \<Rightarrow> client list" where
  "updateClient s p i db =
     map (\<lambda>r. if client_id r = i then r\<lparr>status := s, priority := p\<rparr> else r) db"

definition updateAllClients :: "client list \<Rightarrow> client list \<Rightarrow> client list" where
  "updateAllClients clients db =
     foldl (\<lambda>d c. updateClient (status c) (priority c) (client_id c) d) db clients"

section \<open>Request handlers\<close>

text \<open>
  \<^verbatim>\<open>clients.find(client => client.id === id)\<close> yields a reference to an element of the
  array, not a copy: the model keeps the position of that element, so that a write to
  the element in a loop is seen by a later read through \<^verbatim>\<open>originalClient\<close>.
\<close>

fun findIndex :: "('a \<Rightarrow> bool) \<Rightarrow> 'a list \<Rightarrow> nat option" where
  "findIndex P [] = None"
| "findIndex P (x # xs) = (if P x then Some 0 else map_option Suc (findIndex P xs))"

text \<open>
  \<^verbatim>\<open>GET /api/v1/clients/:id\<close> (the same in both files). The 400 response is sent
  without \<^verbatim>\<open>return\<close>, so the 200 response follows it. \<open>get_row\<close> is
  \<^verbatim>\<open>db.prepare('select * from clients where id = ?').get(id)\<close>: the first row with
  that id, and no row when the id is NaN.
\<close>

definition get_row :: "client list \<Rightarrow> int option \<Rightarrow> client option" where
  "get_row db i = (case i of None \<Rightarrow> None | Some n \<Rightarrow> find (\<lambda>c. client_id c = n) db)"

definition get_client :: "client list \<Rightarrow> int option \<Rightarrow> event list" where
  "get_client db i =
     (case validateId db i of Inl m \<Rightarrow> [Send 400 (Message m)] | Inr _ \<Rightarrow> [])
     @ [Send 200 (Row (get_row db i))]"

text \<open>
  The body of the callback of the same-lane \<^verbatim>\<open>clients.map\<close> (the same in both files),
  for the element at position \<open>i\<close>; \<open>oi\<close> is the position \<^verbatim>\<open>originalClient\<close> refers
  to. \<^verbatim>\<open>priority <= client.priority < originalClient.priority\<close> parses as
  \<^verbatim>\<open>(priority <= client.priority) < originalClient.priority\<close>: a boolean compared with
  a number.
\<close>

definition same_lane_step :: "nat \<Rightarrow> string \<Rightarrow> int \<Rightarrow> client list \<Rightarrow> nat \<Rightarrow> client list" where
  "same_lane_step oi st p cs i =
     (let c = cs ! i; original = cs ! oi in
      if status c \<noteq> st then cs
      else if to_number (p \<le> priority c) < priority original
        then cs[i := c\<lparr>priority := priority c + 1\<rparr>]
      else if to_number (p \<ge> priority c) > priority original
        then cs[i := c\<lparr>priority := priority c - 1\<rparr>]
      else cs)"

definition same_lane_loop :: "nat \<Rightarrow> string \<Rightarrow> int \<Rightarrow> client list \<Rightarrow> client list" where
  "same_lane_loop oi st p cs = foldl (same_lane_step oi st p) cs [0..<length cs]"

text \<open>
  The callback of the cross-lane \<^verbatim>\<open>clients.map\<close>. The two files differ in the test
  on the lane the card leaves: \<^verbatim>\<open>>\<close> in server.js, \<^verbatim>\<open>>=\<close> in the other file, where
  the element \<^verbatim>\<open>originalClient\<close> refers to passes the test itself.
\<close>

definition cross_lane_step ::
  "(int \<Rightarrow> int \<Rightarrow> bool) \<Rightarrow> nat \<Rightarrow> string \<Rightarrow> int \<Rightarrow> client list \<Rightarrow> nat \<Rightarrow> client list" where
  "cross_lane_step leaves oi st p cs i =
     (let c = cs ! i; original = cs ! oi in
      if status c = status original
        then (if leaves (priority c) (priority original)
              then cs[i := c\<lparr>priority := priority c - 1\<rparr>] else cs)
      else if status c = st
        then (if priority c \<ge> p then cs[i := c\<lparr>priority := priority c + 1\<rparr>] else cs)
      else cs)"

definition cross_lane_loop ::
  "(int \<Rightarrow> int \<Rightarrow> bool) \<Rightarrow> nat \<Rightarrow> string \<Rightarrow> int \<Rightarrow> client list \<Rightarrow> client list" where
  "cross_lane_loop leaves oi st p cs = foldl (cross_lane_step leaves oi st p) cs [0..<length cs]"

text \<open>
  The last steps of both update handlers: replace every element whose id is the
  requested one by \<^verbatim>\<open>updatedClient\<close>, write all elements back, send the list.
\<close>

definition replace_client :: "int \<Rightarrow> client \<Rightarrow> client list \<Rightarrow> client list" where
  "replace_client n updatedClient cs = map (\<lambda>c. if client_id c = n then updatedClient else c) cs"

definition finish :: "client list \<Rightarrow> client list \<Rightarrow> event list \<times> client list" where
  "finish clients db = ([Send 200 (Clients clients)], updateAllClients clients db)"

text \<open>
  The requested lane and rank with their defaults: \<^verbatim>\<open>if (status) ... else status = d\<close>
  and \<^verbatim>\<open>if (!priority) priority = d\<close>.
\<close>

definition resolve_status :: "string option \<Rightarrow> string \<Rightarrow> string" where
  "resolve_status s d = (case s of None \<Rightarrow> d | Some t \<Rightarrow> if t = [] then d else t)"

definition resolve_priority :: "int option \<Rightarrow> int \<Rightarrow> int" where
  "resolve_priority p d = (case p of None \<Rightarrow> d | Some n \<Rightarrow> if n = 0 then d else n)"

definition status_rejected :: "string option \<Rightarrow> bool" where
  "status_rejected s = (case s of None \<Rightarrow> False | Some t \<Rightarrow> t \<noteq> [] \<and> \<not> valid_lane t)"

text \<open>
  Both update handlers when \<^verbatim>\<open>clients.find\<close> yields \<^verbatim>\<open>undefined\<close>, after the check
  of the requested status: the first read of \<^verbatim>\<open>originalClient.status\<close> raises. With
  no status requested that is \<^verbatim>\<open>status = originalClient.status\<close>; otherwise it is the
  lane comparison, which \<^verbatim>\<open>validatePriority\<close> precedes when a priority is given.
\<close>

definition update_undefined_original :: "string option \<Rightarrow> int option \<Rightarrow> event list" where
  "update_undefined_original s p =
     (if \<not> truthy_status s then [TypeError]
      else if \<not> truthy_priority p then [TypeError]
      else (case validatePriority (js_of_priority p) of
              Inl m \<Rightarrow> [Send 400 (Message m)]
            | Inr _ \<Rightarrow> [TypeError]))"

subsection \<open>The update handler of src/unnamed/part\_000\<close>

text \<open>
  From \<^verbatim>\<open>const maxPriority = ...\<close> to the end, for the id \<open>n\<close> whose element is at
  position \<open>oi\<close>. \<^verbatim>\<open>{...originalClient, status: status, priority: priority}\<close> copies
  the element after the loop has run.
\<close>

definition rerank_part_000 ::
  "int \<Rightarrow> nat \<Rightarrow> string option \<Rightarrow> int option \<Rightarrow> client list \<Rightarrow> client list
     \<Rightarrow> event list \<times> client list" where
  "rerank_part_000 n oi s pr clients db =
     (let st = resolve_status s (status (clients ! oi));
          maxPriority = int (length (filter (\<lambda>c. status c = st) clients)) + 1
      in if \<not> truthy_priority pr \<and> status (clients ! oi) = st
           then ([Send 200 (Clients clients)], db)
         else
           (let p = resolve_priority pr maxPriority in
            case validatePriority (Number (Finite (of_int p))) of
              Inl m \<Rightarrow> ([Send 400 (Message m)], db)
            | Inr _ \<Rightarrow>
                if status (clients ! oi) = st \<and> priority (clients ! oi) = p
                  then ([Send 200 (Clients clients)], db)
                else
                  (let cs = (if status (clients ! oi) = st
                             then same_lane_loop oi st p clients
                             else cross_lane_loop (\<ge>) oi st p clients);
                       p' = (if p > maxPriority then maxPriority else p);
                       updatedClient = (cs ! oi)\<lparr>status := st, priority := p'\<rparr>
                   in finish (replace_client n updatedClient cs) db)))"

definition put_part_000 ::
  "client list \<Rightarrow> int option \<Rightarrow> string option \<Rightarrow> int option \<Rightarrow> event list \<times> client list" where
  "put_part_000 db i s pr =
     (let pre = (case validateId db i of Inl m \<Rightarrow> [Send 400 (Message m)] | Inr _ \<Rightarrow> []);
          clients = db
      in if status_rejected s then (pre @ [Send 400 (Message invalid_status)], db)
         else
           (case i of
              None \<Rightarrow> (pre @ update_undefined_original s pr, db)
            | Some n \<Rightarrow>
                (case findIndex (\<lambda>c. client_id c = n) clients of
                   None \<Rightarrow> (pre @ update_undefined_original s pr, db)
                 | Some oi \<Rightarrow>
                     (let (evs, db') = rerank_part_000 n oi s pr clients db
                      in (pre @ evs, db')))))"

subsection \<open>The update handler of src/server.js\<close>

text \<open>
  The branch without a priority: \<^verbatim>\<open>if (status = originalClient.status) return\<close> is an
  assignment, so the handler returns without a response unless the stored status is
  the empty string; \<^verbatim>\<open>clients.filter(client => client !== status)\<close> keeps every
  element, an object never being identical to a string.
\<close>

definition server_js_no_priority ::
  "int \<Rightarrow> nat \<Rightarrow> client \<Rightarrow> client list \<Rightarrow> client list \<Rightarrow> event list \<times> client list" where
  "server_js_no_priority n oi updatedClient clients db =
     (if status (clients ! oi) \<noteq> [] then ([], db)
      else
        (let p = int (length (filter (\<lambda>c. True) clients))
         in finish (replace_client n (updatedClient\<lparr>priority := p\<rparr>) clients) db))"

text \<open>
  From \<^verbatim>\<open>let updatedClient = { ...originalClient}\<close> to the end. The copy is taken
  before the loops run; a bare \<^verbatim>\<open>return\<close> sends nothing.
\<close>

definition rerank_server_js ::
  "int \<Rightarrow> nat \<Rightarrow> string option \<Rightarrow> int option \<Rightarrow> client list \<Rightarrow> client list
     \<Rightarrow> event list \<times> client list" where
  "rerank_server_js n oi s pr clients db =
     (let st = resolve_status s (status (clients ! oi));
          updatedClient = (if truthy_status s then (clients ! oi)\<lparr>status := st\<rparr> else clients ! oi)
      in case pr of
           None \<Rightarrow> server_js_no_priority n oi updatedClient clients db
         | Some p \<Rightarrow>
             if p = 0 then server_js_no_priority n oi updatedClient clients db
             else
               (case validatePriority (Number (Finite (of_int p))) of
                  Inl m \<Rightarrow> ([Send 400 (Message m)], db)
                | Inr _ \<Rightarrow>
                    if status (clients ! oi) = st \<and> priority (clients ! oi) = p then ([], db)
                    else
                      (let cs = (if status (clients ! oi) = st
                                 then same_lane_loop oi st p clients
                                 else cross_lane_loop (>) oi st p clients)
                       in finish (replace_client n (updatedClient\<lparr>priority := p\<rparr>) cs) db)))"

definition put_server_js ::
  "client list \<Rightarrow> int option \<Rightarrow> string option \<Rightarrow> int option \<Rightarrow> event list \<times> client list" where
  "put_server_js db i s pr =
     (let pre = (case validateId db i of Inl m \<Rightarrow> [Send 400 (Message m)] | Inr _ \<Rightarrow> []);
          clients = db
      in if status_rejected s then (pre @ [Send 400 (Message invalid_status)], db)
         else
           (case i of
              None \<Rightarrow> (pre @ update_undefined_original s pr, db)
            | Some n \<Rightarrow>
                (case findIndex (\<lambda>c. client_id c = n) clients of
                   None \<Rightarrow> (pre @ update_undefined_original s pr, db)
                 | Some oi \<Rightarrow>
                     (let (evs, db') = rerank_server_js n oi s pr clients db
                      in (pre @ evs, db')))))"

section \<open>The density invariant\<close>

definition lanes :: "string list" where
  "lanes = [''backlog'', ''in-progress'', ''complete'']"

definition ranks :: "string \<Rightarrow> client list \<Rightarrow> int list" where
  "ranks L cs = map priority (filter (\<lambda>c. status c = L) cs)"

text \<open>The ranks of lane \<open>L\<close>, sorted, are \<open>1, 2, ..., count L\<close>.\<close>

definition dense_lane :: "string \<Rightarrow> client list \<Rightarrow> bool" where
  "dense_lane L cs = (sort (ranks L cs) = [1..int (length (ranks L cs))])"

definition dense :: "client list \<Rightarrow> bool" where
  "dense cs = list_all (\<lambda>L. dense_lane L cs) lanes"

section \<open>Frame and persistence\<close>

text \<open>
  What an update may change of one item: nothing of its id, name and description; the
  lane only of the item with the requested id \<open>n\<close>; nothing at all of an item in a
  lane other than the lane the target leaves and the lane it enters.
\<close>

definition frame_item :: "int \<Rightarrow> string \<Rightarrow> string \<Rightarrow> client \<Rightarrow> client \<Rightarrow> bool" where
  "frame_item n origin dest a b =
     (client_id b = client_id a \<and> name b = name a \<and> description b = description a
      \<and> (client_id a \<noteq> n \<longrightarrow> status b = status a)
      \<and> (status a \<noteq> origin \<and> status a \<noteq> dest \<longrightarrow> b = a))"

definition frame :: "int \<Rightarrow> string \<Rightarrow> string \<Rightarrow> client list \<Rightarrow> client list \<Rightarrow> bool" where
  "frame n origin dest before after =
     (length after = length before \<and> list_all2 (frame_item n origin dest) before after)"

text \<open>
  The cards other than the target that a move shifts, in the words of the
  specification (section 4.2, steps 4 and 5): inside one lane the cards of the lane
  with rank in [destRank, originalRank) or in (originalRank, destRank]; between two
  lanes the cards of the lane left with rank at least originalRank and the cards of
  the lane entered with rank at least destRank. An update changes only the target and
  these neighbours when every other item of the returned list is the stored one.
\<close>

definition shifted_neighbour :: "string \<Rightarrow> int \<Rightarrow> string \<Rightarrow> int \<Rightarrow> client \<Rightarrow> bool" where
  "shifted_neighbour origin orank dest drank c =
     (if dest = origin
      then status c = dest
        \<and> ((drank \<le> priority c \<and> priority c < orank) \<or> (orank < priority c \<and> priority c \<le> drank))
      else (status c = origin \<and> orank \<le> priority c) \<or> (status c = dest \<and> drank \<le> priority c))"

definition only_target_and_neighbours ::
  "int \<Rightarrow> string \<Rightarrow> int \<Rightarrow> string \<Rightarrow> int \<Rightarrow> client list \<Rightarrow> client list \<Rightarrow> bool" where
  "only_target_and_neighbours n origin orank dest drank before after =
     list_all2 (\<lambda>a b. b = a \<or> client_id a = n \<or> shifted_neighbour origin orank dest drank a)
       before after"

text \<open>
  What the loops may change of one element: only the rank, and only in a lane of \<open>A\<close>.
\<close>

definition lane_shift :: "string set \<Rightarrow> client \<Rightarrow> client \<Rightarrow> bool" where
  "lane_shift A a b =
     (client_id b = client_id a \<and> name b = name a \<and> description b = description a
      \<and> status b = status a \<and> (status a \<notin> A \<longrightarrow> priority b = priority a))"

text \<open>A row and a list element for the same card: equal id, name and description.\<close>

definition same_card :: "client \<Rightarrow> client \<Rightarrow> bool" where
  "same_card r c = (client_id c = client_id r \<and> name c = name r \<and> description c = description r)"

text \<open>
  The store when \<^verbatim>\<open>updateAllClients\<close> is cut off after \<open>k\<close> calls of
  \<^verbatim>\<open>updateClient.run\<close>: better-sqlite3 commits every statement that runs outside a
  transaction on its own.
\<close>

definition interrupted :: "nat \<Rightarrow> client list \<Rightarrow> client list \<Rightarrow> client list" where
  "interrupted k clients db = updateAllClients (take k clients) db"

section \<open>Example boards\<close>

definition card :: "int \<Rightarrow> string \<Rightarrow> int \<Rightarrow> client" where
  "card i s p = \<lparr>client_id = i, name = ''n'', description = ''d'', status = s, priority = p\<rparr>"

definition backlog3 :: "client list" where
  "backlog3 = [card 1 ''backlog'' 1, card 2 ''backlog'' 2, card 3 ''backlog'' 3]"

definition backlog5 :: "client list" where
  "backlog5 =
     [card 1 ''backlog'' 1, card 2 ''backlog'' 2, card 3 ''backlog'' 3, card 4 ''backlog'' 4,
      card 5 ''backlog'' 5]"

text \<open>Table order need not be rank order: here the rank-2 card precedes the rank-1 card.\<close>

definition board3 :: "client list" where
  "board3 = [card 1 ''backlog'' 2, card 2 ''backlog'' 1, card 3 ''in-progress'' 1]"

definition board9 :: "client list" where
  "board9 =
     [card 1 ''backlog'' 1, card 2 ''backlog'' 2, card 3 ''backlog'' 3, card 4 ''backlog'' 4,
      card 5 ''backlog'' 5, card 6 ''in-progress'' 1, card 7 ''in-progress'' 2,
      card 8 ''in-progress'' 3, card 9 ''complete'' 1]"

text \<open>
  \<open>board9\<close> after the rank-2 backlog card has gone to the bottom of in-progress, and
  after it has gone to rank 2 of in-progress.
\<close>

definition board9_bottom :: "client list" where
  "board9_bottom =
     [card 1 ''backlog'' 1, card 2 ''in-progress'' 4, card 3 ''backlog'' 2, card 4 ''backlog'' 3,
      card 5 ''backlog'' 4, card 6 ''in-progress'' 1, card 7 ''in-progress'' 2,
      card 8 ''in-progress'' 3, card 9 ''complete'' 1]"

definition board9_second :: "client list" where
  "board9_second =
     [card 1 ''backlog'' 1, card 2 ''in-progress'' 2, card 3 ''backlog'' 2, card 4 ''backlog'' 3,
      card 5 ''backlog'' 4, card 6 ''in-progress'' 1, card 7 ''in-progress'' 3,
      card 8 ''in-progress'' 4, card 9 ''complete'' 1]"

section \<open>Validator: properties\<close>

lemma validatePriority_valid: "validatePriority p = Inr ()"
proof (cases "Number_isNaN p")
  case True
  then have "p = Number NaN" by (simp add: Number_isNaN_def)
  then show ?thesis by (simp add: validatePriority_def)
next
  case False
  then show ?thesis by (simp add: validatePriority_def)
qed

text \<open>
  Claim C6: absence of a priority is valid, and a present priority is rejected with
  InvalidPriority exactly when it is not a positive integer; zero and non-integers are
  rejected. The code accepts the absent priority, but also zero, a negative number, a
  fraction and a string: no value is rejected.
\<close>

theorem validatePriority_accepts_non_positive_integers:
  "validatePriority Undefined = Inr ()
   \<and> validatePriority (Number (Finite 0)) = Inr ()
   \<and> validatePriority (Number (Finite (- 1))) = Inr ()
   \<and> validatePriority (Number (Finite (3 / 2))) = Inr ()
   \<and> validatePriority (String_js ''abc'') = Inr ()"
  by (simp add: validatePriority_def Number_isNaN_def)

lemma findIndex_None: "findIndex P xs = None \<longleftrightarrow> find P xs = None"
  by (induction xs) auto

lemma findIndex_Some: "findIndex P xs = Some k \<Longrightarrow> k < length xs \<and> P (xs ! k)"
  by (induction xs arbitrary: k) (auto split: if_splits)

lemma validateId_found:
  "findIndex (\<lambda>c. client_id c = n) db = Some k \<Longrightarrow> validateId db (Some n) = Inr ()"
  by (cases "find (\<lambda>c. client_id c = n) db")
     (auto simp: validateId_def findIndex_None [symmetric])

lemma update_undefined_original_raises: "update_undefined_original s p = [TypeError]"
  by (simp add: update_undefined_original_def validatePriority_valid)

section \<open>Handlers on an invalid id\<close>

text \<open>
  Claim C10: when \<^verbatim>\<open>validateId\<close> reports an invalid id, the GET-by-id handler and
  the update handlers send the 400 response and go on. The GET handler then sends a
  200 response with the empty result of the lookup. The update handlers go on with an
  \<^verbatim>\<open>originalClient\<close> that \<^verbatim>\<open>clients.find\<close> did not find: they check the
  requested status, and unless that is rejected they raise on the first read of
  \<^verbatim>\<open>originalClient.status\<close>; the store is not written.
\<close>

theorem invalid_id_does_not_return:
  assumes "validateId db i = Inl m"
  shows "get_client db i = [Send 400 (Message m), Send 200 (Row None)]
     \<and> (case i of None \<Rightarrow> None | Some n \<Rightarrow> findIndex (\<lambda>c. client_id c = n) db) = None
     \<and> put_server_js db i s pr =
         (Send 400 (Message m)
            # (if status_rejected s then [Send 400 (Message invalid_status)] else [TypeError]), db)
     \<and> put_part_000 db i s pr =
         (Send 400 (Message m)
            # (if status_rejected s then [Send 400 (Message invalid_status)] else [TypeError]), db)"
proof (cases i)
  case None
  with assms show ?thesis
    by (simp add: get_client_def get_row_def put_server_js_def put_part_000_def
        update_undefined_original_raises)
next
  case (Some n)
  with assms have nf: "find (\<lambda>c. client_id c = n) db = None"
    by (auto simp: validateId_def split: option.splits)
  then have ni: "findIndex (\<lambda>c. client_id c = n) db = None"
    by (simp add: findIndex_None)
  from Some assms nf ni show ?thesis
    by (simp add: get_client_def get_row_def put_server_js_def put_part_000_def
        update_undefined_original_raises)
qed

theorem invalid_id_does_not_return_witness:
  "validateId backlog3 (Some 7) = Inl invalid_id_not_found
   \<and> get_client backlog3 (Some 7)
       = [Send 400 (Message invalid_id_not_found), Send 200 (Row None)]
   \<and> put_server_js backlog3 (Some 7) (Some ''complete'') (Some 1)
       = ([Send 400 (Message invalid_id_not_found), TypeError], backlog3)
   \<and> put_part_000 backlog3 (Some 7) (Some ''done'') None
       = ([Send 400 (Message invalid_id_not_found), Send 400 (Message invalid_status)], backlog3)"
proof -
  have h: "validateId backlog3 (Some 7) = Inl invalid_id_not_found"
    by (simp add: validateId_def backlog3_def card_def)
  have a: "\<not> status_rejected (Some ''complete'')"
    by (simp add: status_rejected_def valid_lane_def)
  have b: "status_rejected (Some ''done'')"
    by (simp add: status_rejected_def valid_lane_def)
  show ?thesis
    using h a b
      invalid_id_does_not_return [OF h, of "Some ''complete''" "Some 1"]
      invalid_id_does_not_return [OF h, of "Some ''done''" None]
    by simp
qed

section \<open>The frame of an update\<close>

lemma lane_shift_refl: "list_all2 (lane_shift A) cs cs"
  by (simp add: list_all2_conv_all_nth lane_shift_def)

lemma lane_shift_update:
  assumes "list_all2 (lane_shift A) cs0 cs" and "i < length cs" and "status (cs ! i) \<in> A"
  shows "list_all2 (lane_shift A) cs0 (cs[i := (cs ! i)\<lparr>priority := q\<rparr>])"
  using assms
  by (auto simp: list_all2_conv_all_nth lane_shift_def nth_list_update)

lemma same_lane_step_shift:
  assumes "list_all2 (lane_shift A) cs0 cs" and "st \<in> A" and "i < length cs"
  shows "list_all2 (lane_shift A) cs0 (same_lane_step oi st p cs i)"
  using assms lane_shift_update [of A cs0 cs i]
  by (simp add: same_lane_step_def Let_def)

lemma cross_lane_step_shift:
  assumes "list_all2 (lane_shift A) cs0 cs" and "st \<in> A" and "status (cs0 ! oi) \<in> A"
    and "oi < length cs" and "i < length cs"
  shows "list_all2 (lane_shift A) cs0 (cross_lane_step leaves oi st p cs i)"
proof -
  from assms(1,4) have "status (cs ! oi) = status (cs0 ! oi)"
    by (simp add: list_all2_conv_all_nth lane_shift_def)
  with assms lane_shift_update [of A cs0 cs i] show ?thesis
    by (simp add: cross_lane_step_def Let_def)
qed

lemma foldl_invariant:
  "P s \<Longrightarrow> (\<And>s x. P s \<Longrightarrow> x \<in> set xs \<Longrightarrow> P (f s x)) \<Longrightarrow> P (foldl f s xs)"
  by (induction xs arbitrary: s) auto

lemma same_lane_loop_shift:
  assumes "st \<in> A"
  shows "list_all2 (lane_shift A) cs (same_lane_loop oi st p cs)"
  unfolding same_lane_loop_def
proof (rule foldl_invariant [where P = "\<lambda>c. list_all2 (lane_shift A) cs c"])
  show "list_all2 (lane_shift A) cs cs" by (rule lane_shift_refl)
next
  fix s x
  assume s: "list_all2 (lane_shift A) cs s" and "x \<in> set [0..<length cs]"
  then have "x < length s" by (simp add: list_all2_lengthD)
  with s assms show "list_all2 (lane_shift A) cs (same_lane_step oi st p s x)"
    by (rule same_lane_step_shift)
qed

lemma cross_lane_loop_shift:
  assumes "st \<in> A" and "status (cs ! oi) \<in> A" and "oi < length cs"
  shows "list_all2 (lane_shift A) cs (cross_lane_loop leaves oi st p cs)"
  unfolding cross_lane_loop_def
proof (rule foldl_invariant [where P = "\<lambda>c. list_all2 (lane_shift A) cs c"])
  show "list_all2 (lane_shift A) cs cs" by (rule lane_shift_refl)
next
  fix s x
  assume s: "list_all2 (lane_shift A) cs s" and "x \<in> set [0..<length cs]"
  then have "x < length s" "oi < length s" using assms(3) by (simp_all add: list_all2_lengthD)
  with s assms show "list_all2 (lane_shift A) cs (cross_lane_step leaves oi st p s x)"
    by (simp add: cross_lane_step_shift)
qed

lemma frame_replace:
  assumes d: "distinct (map client_id db)" and oi: "oi < length db" and n: "client_id (db ! oi) = n"
    and sh: "list_all2 (lane_shift {status (db ! oi), dest}) db cs"
    and u: "client_id u = n" "name u = name (db ! oi)" "description u = description (db ! oi)"
  shows "frame n (status (db ! oi)) dest db (replace_client n u cs)"
proof -
  have len: "length cs = length db" using sh by (simp add: list_all2_lengthD)
  have uniq: "j = oi" if "j < length db" "client_id (db ! j) = n" for j
  proof -
    from d that(1) oi have "(map client_id db ! j = map client_id db ! oi) = (j = oi)"
      by (intro nth_eq_iff_index_eq) simp_all
    with that oi n show ?thesis by simp
  qed
  have "frame_item n (status (db ! oi)) dest (db ! j) (replace_client n u cs ! j)"
    if j: "j < length db" for j
  proof -
    from sh j have r: "lane_shift {status (db ! oi), dest} (db ! j) (cs ! j)"
      by (simp add: list_all2_conv_all_nth)
    show ?thesis
    proof (cases "client_id (cs ! j) = n")
      case True
      with r have "client_id (db ! j) = n" by (simp add: lane_shift_def)
      with j have "j = oi" by (rule uniq)
      with True j len u n show ?thesis
        by (simp add: replace_client_def frame_item_def)
    next
      case False
      with r j len show ?thesis
        by (auto simp: replace_client_def frame_item_def lane_shift_def)
    qed
  qed
  with len show ?thesis
    by (simp add: frame_def list_all2_conv_all_nth replace_client_def)
qed

lemma frame_refl: "frame n origin dest db db"
  by (simp add: frame_def frame_item_def list_all2_conv_all_nth)


lemma lane_shift_card:
  assumes "list_all2 (lane_shift A) db ls" and "oi < length db"
  shows "client_id (ls ! oi) = client_id (db ! oi) \<and> name (ls ! oi) = name (db ! oi)
     \<and> description (ls ! oi) = description (db ! oi)"
  using assms by (simp add: list_all2_conv_all_nth lane_shift_def)

lemma rerank_part_000_shape:
  assumes oi: "oi < length db"
  obtains (unchanged) "rerank_part_000 n oi s pr db db0 = ([Send 200 (Clients db)], db0)"
  | (moved) u ls where
      "rerank_part_000 n oi s pr db db0 = finish (replace_client n u ls) db0"
      and "same_card (db ! oi) u"
      and "list_all2 (lane_shift {status (db ! oi), resolve_status s (status (db ! oi))}) db ls"
proof -
  define st where "st = resolve_status s (status (db ! oi))"
  define m where "m = int (length (filter (\<lambda>c. status c = st) db)) + 1"
  define p where "p = resolve_priority pr m"
  define ls where "ls = (if status (db ! oi) = st then same_lane_loop oi st p db
                         else cross_lane_loop (\<ge>) oi st p db)"
  define u where "u = (ls ! oi)\<lparr>status := st, priority := (if p > m then m else p)\<rparr>"
  have sh: "list_all2 (lane_shift {status (db ! oi), st}) db ls"
    using oi by (simp add: ls_def same_lane_loop_shift cross_lane_loop_shift)
  have sc: "same_card (db ! oi) u"
    using lane_shift_card [OF sh oi] by (simp add: same_card_def u_def)
  have eq: "rerank_part_000 n oi s pr db db0 =
      (if (\<not> truthy_priority pr \<and> status (db ! oi) = st)
          \<or> (status (db ! oi) = st \<and> priority (db ! oi) = p)
       then ([Send 200 (Clients db)], db0)
       else finish (replace_client n u ls) db0)"
    unfolding rerank_part_000_def Let_def validatePriority_valid st_def m_def p_def ls_def u_def
    by simp
  show thesis
  proof (cases "(\<not> truthy_priority pr \<and> status (db ! oi) = st)
          \<or> (status (db ! oi) = st \<and> priority (db ! oi) = p)")
    case True
    with eq show thesis by (intro unchanged) simp
  next
    case False
    with eq have "rerank_part_000 n oi s pr db db0 = finish (replace_client n u ls) db0"
      by simp
    then show thesis using sc sh unfolding st_def by (rule moved)
  qed
qed

lemma rerank_server_js_shape:
  assumes oi: "oi < length db"
  obtains (silent) "rerank_server_js n oi s pr db db0 = ([], db0)"
  | (moved) u ls where
      "rerank_server_js n oi s pr db db0 = finish (replace_client n u ls) db0"
      and "same_card (db ! oi) u"
      and "list_all2 (lane_shift {status (db ! oi), resolve_status s (status (db ! oi))}) db ls"
proof -
  define st where "st = resolve_status s (status (db ! oi))"
  define u where "u = (if truthy_status s then (db ! oi)\<lparr>status := st\<rparr> else db ! oi)"
  have sc: "same_card (db ! oi) (u\<lparr>priority := q\<rparr>)" for q
    by (simp add: same_card_def u_def)
  show thesis
  proof (cases "truthy_priority pr")
    case False
    then have eq: "rerank_server_js n oi s pr db db0 =
        (if status (db ! oi) \<noteq> [] then ([], db0)
         else finish (replace_client n (u\<lparr>priority := int (length db)\<rparr>) db) db0)"
      unfolding rerank_server_js_def server_js_no_priority_def st_def u_def Let_def
        truthy_priority_def
      by (simp split: option.splits)
    show thesis
    proof (cases "status (db ! oi) \<noteq> []")
      case True
      with eq show thesis by (intro silent) simp
    next
      case False
      with eq have "rerank_server_js n oi s pr db db0
          = finish (replace_client n (u\<lparr>priority := int (length db)\<rparr>) db) db0"
        by simp
      then show thesis using sc lane_shift_refl by (rule moved)
    qed
  next
    case True
    then obtain p where p: "pr = Some p" "p \<noteq> 0"
      by (auto simp: truthy_priority_def split: option.splits)
    define ls where "ls = (if status (db ! oi) = st then same_lane_loop oi st p db
                           else cross_lane_loop (>) oi st p db)"
    have sh: "list_all2 (lane_shift {status (db ! oi), st}) db ls"
      using oi by (simp add: ls_def same_lane_loop_shift cross_lane_loop_shift)
    have eq: "rerank_server_js n oi s pr db db0 =
        (if status (db ! oi) = st \<and> priority (db ! oi) = p then ([], db0)
         else finish (replace_client n (u\<lparr>priority := p\<rparr>) ls) db0)"
      unfolding rerank_server_js_def st_def u_def ls_def Let_def validatePriority_valid
      using p by simp
    show thesis
    proof (cases "status (db ! oi) = st \<and> priority (db ! oi) = p")
      case True
      with eq show thesis by (intro silent) simp
    next
      case False
      with eq have "rerank_server_js n oi s pr db db0
          = finish (replace_client n (u\<lparr>priority := p\<rparr>) ls) db0"
        by simp
      then show thesis using sc sh unfolding st_def by (rule moved)
    qed
  qed
qed

text \<open>Either handler, for an id that is in the store.\<close>

lemma put_shape:
  assumes f: "findIndex (\<lambda>c. client_id c = n) db = Some oi"
    and put: "put = put_part_000 \<or> put = put_server_js"
  obtains (rejected) "put db (Some n) s pr = ([Send 400 (Message invalid_status)], db)"
  | (silent) "put db (Some n) s pr = ([], db)"
  | (unchanged) "put db (Some n) s pr = ([Send 200 (Clients db)], db)"
  | (moved) u ls where
      "put db (Some n) s pr
         = ([Send 200 (Clients (replace_client n u ls))],
            updateAllClients (replace_client n u ls) db)"
      and "same_card (db ! oi) u"
      and "list_all2 (lane_shift {status (db ! oi), resolve_status s (status (db ! oi))}) db ls"
proof -
  from f have oi: "oi < length db"
    using findIndex_Some [of "\<lambda>c. client_id c = n" db oi] by simp
  from f have v: "validateId db (Some n) = Inr ()"
    by (rule validateId_found)
  show thesis
  proof (cases "status_rejected s")
    case True
    with v put have "put db (Some n) s pr = ([Send 400 (Message invalid_status)], db)"
      by (auto simp: put_part_000_def put_server_js_def)
    then show thesis by (rule rejected)
  next
    case False
    from put show thesis
    proof
      assume p: "put = put_part_000"
      with False v f have eq: "put db (Some n) s pr = rerank_part_000 n oi s pr db db"
        by (simp add: put_part_000_def)
      from oi show thesis
      proof (cases rule: rerank_part_000_shape [of oi db n s pr db])
        case unchanged
        with eq show thesis by (intro that(3)) simp
      next
        case (moved u ls)
        with eq show thesis by (intro that(4) [of u ls]) (simp_all add: finish_def)
      qed
    next
      assume p: "put = put_server_js"
      with False v f have eq: "put db (Some n) s pr = rerank_server_js n oi s pr db db"
        by (simp add: put_server_js_def)
      from oi show thesis
      proof (cases rule: rerank_server_js_shape [of oi db n s pr db])
        case silent
        with eq show thesis by (intro that(2)) simp
      next
        case (moved u ls)
        with eq show thesis by (intro that(4) [of u ls]) (simp_all add: finish_def)
      qed
    qed
  qed
qed

lemma put_frame:
  assumes d: "distinct (map client_id db)"
    and f: "findIndex (\<lambda>c. client_id c = n) db = Some oi"
    and put: "put = put_part_000 \<or> put = put_server_js"
    and ev: "Send 200 (Clients cs) \<in> set (fst (put db (Some n) s pr))"
  shows "frame n (status (db ! oi)) (resolve_status s (status (db ! oi))) db cs"
proof -
  from f have oi: "oi < length db" and n: "client_id (db ! oi) = n"
    using findIndex_Some [of "\<lambda>c. client_id c = n" db oi] by simp_all
  from f put show ?thesis
  proof (cases rule: put_shape [of n db oi put s pr])
    case rejected
    with ev show ?thesis by simp
  next
    case silent
    with ev show ?thesis by simp
  next
    case unchanged
    with ev show ?thesis by (simp add: frame_refl)
  next
    case (moved u ls)
    from moved(1) ev have "cs = replace_client n u ls" by simp
    moreover from d oi n moved(3)
    have "frame n (status (db ! oi)) (resolve_status s (status (db ! oi))) db
        (replace_client n u ls)"
      using moved(2) n by (intro frame_replace) (simp_all add: same_card_def)
    ultimately show ?thesis by simp
  qed
qed

text \<open>
  The frame of an update at the level of lanes: every item keeps its id, name and
  description, every item other than the target keeps its lane, every item of a
  third lane is unchanged, and the list has the same length, item for item. Both
  handlers, for ids unique in the store (the column is the primary key) and a list
  sent with status 200. The ranks inside the lane left and the lane entered are not
  bounded by this frame.
\<close>

theorem update_frame:
  assumes "distinct (map client_id db)"
    and "findIndex (\<lambda>c. client_id c = n) db = Some oi"
    and "put = put_part_000 \<or> put = put_server_js"
    and "Send 200 (Clients cs) \<in> set (fst (put db (Some n) s pr))"
  shows "frame n (status (db ! oi)) (resolve_status s (status (db ! oi))) db cs"
  using assms by (rule put_frame)

theorem update_frame_witness:
  "distinct (map client_id board9)
   \<and> findIndex (\<lambda>c. client_id c = 2) board9 = Some 1
   \<and> Send 200 (Clients board9_bottom)
       \<in> set (fst (put_part_000 board9 (Some 2) (Some ''in-progress'') None))
   \<and> Send 200 (Clients board9_second)
       \<in> set (fst (put_server_js board9 (Some 2) (Some ''in-progress'') (Some 2)))
   \<and> frame 2 ''backlog'' ''in-progress'' board9 board9_bottom
   \<and> frame 2 ''backlog'' ''in-progress'' board9 board9_second"
proof -
  have d: "distinct (map client_id board9)" by code_simp
  have f: "findIndex (\<lambda>c. client_id c = 2) board9 = Some 1" by code_simp
  have e1: "Send 200 (Clients board9_bottom)
      \<in> set (fst (put_part_000 board9 (Some 2) (Some ''in-progress'') None))"
    by code_simp
  have e2: "Send 200 (Clients board9_second)
      \<in> set (fst (put_server_js board9 (Some 2) (Some ''in-progress'') (Some 2)))"
    by code_simp
  have o: "status (board9 ! 1) = ''backlog''" by code_simp
  have r: "resolve_status (Some ''in-progress'') ''backlog'' = ''in-progress''" by code_simp
  have "frame 2 ''backlog'' ''in-progress'' board9 board9_bottom"
    using update_frame [where put = put_part_000, OF d f _ e1] o r by simp
  moreover have "frame 2 ''backlog'' ''in-progress'' board9 board9_second"
    using update_frame [where put = put_server_js, OF d f _ e2] o r by simp
  ultimately show ?thesis using d f e1 e2 by simp
qed

section \<open>Persistence\<close>

lemma updateAllClients_snoc:
  "updateAllClients (xs @ [c]) db
     = updateClient (status c) (priority c) (client_id c) (updateAllClients xs db)"
  by (simp add: updateAllClients_def)

lemma distinct_ids_index:
  assumes "distinct (map client_id db)" and "j < length db" and "k < length db"
  shows "(client_id (db ! j) = client_id (db ! k)) = (j = k)"
proof -
  from assms have "(map client_id db ! j = map client_id db ! k) = (j = k)"
    by (intro nth_eq_iff_index_eq) simp_all
  with assms show ?thesis by simp
qed

lemma updateClient_at:
  assumes d: "distinct (map client_id db)" and sc: "list_all2 same_card db clients"
    and k: "k < length clients"
  shows "updateClient (status (clients ! k)) (priority (clients ! k)) (client_id (clients ! k))
           (take k clients @ drop k db)
         = take (Suc k) clients @ drop (Suc k) db"
proof (rule nth_equalityI)
  from sc have len: "length clients = length db" by (simp add: list_all2_lengthD)
  with k show "length (updateClient (status (clients ! k)) (priority (clients ! k))
        (client_id (clients ! k)) (take k clients @ drop k db))
      = length (take (Suc k) clients @ drop (Suc k) db)"
    by (simp add: updateClient_def)
  fix j
  assume "j < length (updateClient (status (clients ! k)) (priority (clients ! k))
        (client_id (clients ! k)) (take k clients @ drop k db))"
  with k len have j: "j < length db" by (simp add: updateClient_def)
  from sc j have cj: "same_card (db ! j) (clients ! j)"
    by (simp add: list_all2_conv_all_nth)
  from sc k len have ck: "same_card (db ! k) (clients ! k)"
    by (simp add: list_all2_conv_all_nth)
  from d j k len have ids: "(client_id (db ! j) = client_id (db ! k)) = (j = k)"
    by (simp add: distinct_ids_index)
  consider "j < k" | "j = k" | "k < j" by linarith
  then show "updateClient (status (clients ! k)) (priority (clients ! k))
        (client_id (clients ! k)) (take k clients @ drop k db) ! j
      = (take (Suc k) clients @ drop (Suc k) db) ! j"
  proof cases
    case 1
    with j k len cj ck ids show ?thesis
      by (simp add: updateClient_def nth_append same_card_def)
  next
    case 2
    with j k len ck show ?thesis
      by (simp add: updateClient_def nth_append same_card_def)
  next
    case 3
    with j k len cj ck ids show ?thesis
      by (simp add: updateClient_def nth_append same_card_def)
  qed
qed

lemma persistence_row_by_row:
  assumes "distinct (map client_id db)" and "list_all2 same_card db clients"
    and "k \<le> length clients"
  shows "interrupted k clients db = take k clients @ drop k db"
  using assms(3)
proof (induction k)
  case 0
  show ?case by (simp add: interrupted_def updateAllClients_def)
next
  case (Suc k)
  then have k: "k < length clients" and ih: "interrupted k clients db = take k clients @ drop k db"
    by simp_all
  from k have "take (Suc k) clients = take k clients @ [clients ! k]"
    by (simp add: take_Suc_conv_app_nth)
  then have "interrupted (Suc k) clients db
      = updateClient (status (clients ! k)) (priority (clients ! k)) (client_id (clients ! k))
          (interrupted k clients db)"
    by (simp add: interrupted_def updateAllClients_snoc)
  with ih assms(1,2) k show ?case
    by (simp add: updateClient_at)
qed

lemma frame_same_card: "frame n origin dest db cs \<Longrightarrow> list_all2 same_card db cs"
proof -
  assume "frame n origin dest db cs"
  then have "list_all2 (frame_item n origin dest) db cs" by (simp add: frame_def)
  then show ?thesis
    by (rule list_all2_mono) (simp add: frame_item_def same_card_def)
qed

lemma put_store:
  assumes f: "findIndex (\<lambda>c. client_id c = n) db = Some oi"
    and put: "put = put_part_000 \<or> put = put_server_js"
    and ev: "Send 200 (Clients cs) \<in> set (fst (put db (Some n) s pr))"
  shows "(cs = db \<and> snd (put db (Some n) s pr) = db)
     \<or> snd (put db (Some n) s pr) = updateAllClients cs db"
  using f put
proof (cases rule: put_shape [of n db oi put s pr])
  case rejected
  with ev show ?thesis by simp
next
  case silent
  with ev show ?thesis by simp
next
  case unchanged
  with ev show ?thesis by simp
next
  case (moved u ls)
  with ev show ?thesis by simp
qed

text \<open>
  Claim C9, as stated: the rows of an update are written in one transaction, all or
  none, so that a write cut short cannot leave a store that is not dense. On the
  code the writes are single statements: both boards below are dense before and
  after the update, and not dense when the write stops after two statements.
\<close>

theorem persistence_not_atomic:
  "dense board9
   \<and> put_server_js board9 (Some 2) (Some ''in-progress'') (Some 2)
       = ([Send 200 (Clients board9_second)], board9_second)
   \<and> dense board9_second
   \<and> \<not> dense (interrupted 2 board9_second board9)
   \<and> put_part_000 board9 (Some 2) (Some ''in-progress'') None
       = ([Send 200 (Clients board9_bottom)], board9_bottom)
   \<and> dense board9_bottom
   \<and> \<not> dense (interrupted 2 board9_bottom board9)"
  by code_simp

text \<open>
  Claim C9, amended: after an update that sends a list with status 200, the store
  equals the list sent. Writing that list back is done row by row, not in one step:
  \<^verbatim>\<open>updateAllClients\<close> on the list sent, stopped after \<open>k\<close> of its statements, leaves
  the store holding the first \<open>k\<close> items as sent and the remaining rows as they were
  before the update; run to the end it gives the store the handler leaves. For both
  handlers, ids unique in the store and a target that is in it.
\<close>

theorem persistence_is_row_by_row:
  assumes "distinct (map client_id db)"
    and "findIndex (\<lambda>c. client_id c = n) db = Some oi"
    and "put = put_part_000 \<or> put = put_server_js"
    and "Send 200 (Clients cs) \<in> set (fst (put db (Some n) s pr))"
    and "k \<le> length cs"
  shows "snd (put db (Some n) s pr) = cs
     \<and> interrupted k cs db = take k cs @ drop k db
     \<and> interrupted (length cs) cs db = snd (put db (Some n) s pr)"
proof -
  have "frame n (status (db ! oi)) (resolve_status s (status (db ! oi))) db cs"
    using assms(1-4) by (rule put_frame)
  then have sc: "list_all2 same_card db cs" by (rule frame_same_card)
  then have len: "length cs = length db" by (simp add: list_all2_lengthD)
  have pre: "interrupted j cs db = take j cs @ drop j db" if "j \<le> length cs" for j
    using assms(1) sc that by (rule persistence_row_by_row)
  from pre [of "length cs"] len have "updateAllClients cs db = cs"
    by (simp add: interrupted_def)
  with put_store [OF assms(2-4)] have "snd (put db (Some n) s pr) = cs" by auto
  with pre [OF assms(5)] pre [of "length cs"] len show ?thesis by simp
qed

theorem persistence_is_row_by_row_witness:
  "distinct (map client_id board9)
   \<and> findIndex (\<lambda>c. client_id c = 2) board9 = Some 1
   \<and> Send 200 (Clients board9_bottom)
       \<in> set (fst (put_part_000 board9 (Some 2) (Some ''in-progress'') None))
   \<and> (2::nat) \<le> length board9_bottom
   \<and> interrupted 2 board9_bottom board9
       = [card 1 ''backlog'' 1, card 2 ''in-progress'' 4, card 3 ''backlog'' 3,
          card 4 ''backlog'' 4, card 5 ''backlog'' 5, card 6 ''in-progress'' 1,
          card 7 ''in-progress'' 2, card 8 ''in-progress'' 3,
          card 9 ''complete'' 1]
   \<and> snd (put_part_000 board9 (Some 2) (Some ''in-progress'') None) = board9_bottom"
proof -
  have d: "distinct (map client_id board9)" by code_simp
  have f: "findIndex (\<lambda>c. client_id c = 2) board9 = Some 1" by code_simp
  have e: "Send 200 (Clients board9_bottom)
      \<in> set (fst (put_part_000 board9 (Some 2) (Some ''in-progress'') None))"
    by code_simp
  have k: "(2::nat) \<le> length board9_bottom" by code_simp
  have t: "take 2 board9_bottom @ drop 2 board9
      = [card 1 ''backlog'' 1, card 2 ''in-progress'' 4, card 3 ''backlog'' 3,
         card 4 ''backlog'' 4, card 5 ''backlog'' 5, card 6 ''in-progress'' 1,
         card 7 ''in-progress'' 2, card 8 ''in-progress'' 3, card 9 ''complete'' 1]"
    by code_simp
  show ?thesis
    using persistence_is_row_by_row [where put = put_part_000, OF d f _ e k] d f e k t by simp
qed

section \<open>The handler of src/unnamed/part\_000: no-op and clamp\<close>

text \<open>
  A request for the lane the card is in (or for no lane) and for the rank it has (or
  for no rank) is answered with the stored list, and nothing is written.
\<close>

lemma part_000_no_op:
  assumes "findIndex (\<lambda>c. client_id c = n) db = Some oi"
    and "\<not> status_rejected s"
    and "resolve_status s (status (db ! oi)) = status (db ! oi)"
    and "\<not> truthy_priority pr \<or> pr = Some (priority (db ! oi))"
  shows "put_part_000 db (Some n) s pr = ([Send 200 (Clients db)], db)"
proof -
  from assms(1) have v: "validateId db (Some n) = Inr ()"
    by (rule validateId_found)
  from assms(3,4) have "rerank_part_000 n oi s pr db db = ([Send 200 (Clients db)], db)"
    by (auto simp: rerank_part_000_def Let_def validatePriority_valid resolve_priority_def
        truthy_priority_def)
  with assms(1,2) v show ?thesis
    by (simp add: put_part_000_def)
qed

text \<open>
  A requested rank above \<^verbatim>\<open>maxPriority\<close>, the number of cards in the requested lane
  plus one, is cut down to it.
\<close>

lemma part_000_clamps:
  assumes f: "findIndex (\<lambda>c. client_id c = n) db = Some oi"
    and "\<not> status_rejected s"
    and dest: "dest = resolve_status s (status (db ! oi))"
    and m: "m = int (length (filter (\<lambda>c. status c = dest) db)) + 1"
    and "m < p" and "priority (db ! oi) \<noteq> p \<or> status (db ! oi) \<noteq> dest"
  shows "\<exists>cs. put_part_000 db (Some n) s (Some p) = ([Send 200 (Clients cs)], updateAllClients cs db)
     \<and> status (cs ! oi) = dest \<and> priority (cs ! oi) = m"
proof -
  from f have oi: "oi < length db" and n: "client_id (db ! oi) = n"
    using findIndex_Some [of "\<lambda>c. client_id c = n" db oi] by simp_all
  from f have v: "validateId db (Some n) = Inr ()"
    by (rule validateId_found)
  define ls where "ls = (if status (db ! oi) = dest then same_lane_loop oi dest p db
                         else cross_lane_loop (\<ge>) oi dest p db)"
  define u where "u = (ls ! oi)\<lparr>status := dest, priority := m\<rparr>"
  have sh: "list_all2 (lane_shift {status (db ! oi), dest}) db ls"
    using oi by (simp add: ls_def same_lane_loop_shift cross_lane_loop_shift)
  then have len: "length ls = length db" by (simp add: list_all2_lengthD)
  from m \<open>m < p\<close> have p0: "p \<noteq> 0" by linarith
  have "rerank_part_000 n oi s (Some p) db db = finish (replace_client n u ls) db"
    unfolding rerank_part_000_def Let_def validatePriority_valid dest [symmetric]
      m [symmetric] ls_def u_def
    using assms(5,6) p0 by (auto simp: truthy_priority_def resolve_priority_def)
  with f assms(2) v have
    "put_part_000 db (Some n) s (Some p)
       = ([Send 200 (Clients (replace_client n u ls))], updateAllClients (replace_client n u ls) db)"
    by (simp add: put_part_000_def finish_def)
  moreover have "replace_client n u ls ! oi = u"
    using oi len n lane_shift_card [OF sh oi] by (simp add: replace_client_def)
  ultimately show ?thesis by (simp add: u_def)
qed

section \<open>Re-ranking on example boards\<close>

text \<open>
  Claim C1: an update on a dense board leaves every lane dense. On the code a move
  inside one lane breaks it: in a backlog ranked 1, 2, 3, moving the rank-3 card to
  rank 2 raises the rank of every card of the lane and then sets the moved card to 2,
  in both files; the lane ends with the ranks 2, 3, 2.
\<close>

theorem same_lane_move_breaks_density:
  "dense backlog3
   \<and> put_part_000 backlog3 (Some 3) None (Some 2)
       = ([Send 200 (Clients [card 1 ''backlog'' 2, card 2 ''backlog'' 3, card 3 ''backlog'' 2])],
          [card 1 ''backlog'' 2, card 2 ''backlog'' 3, card 3 ''backlog'' 2])
   \<and> put_server_js backlog3 (Some 3) None (Some 2)
       = ([Send 200 (Clients [card 1 ''backlog'' 2, card 2 ''backlog'' 3, card 3 ''backlog'' 2])],
          [card 1 ''backlog'' 2, card 2 ''backlog'' 3, card 3 ''backlog'' 2])
   \<and> \<not> dense [card 1 ''backlog'' 2, card 2 ''backlog'' 3, card 3 ''backlog'' 2]"
  by code_simp

text \<open>
  Claim C2: in a move inside a lane a card other than the target goes up by one when
  its rank is in [destRank, originalRank), down by one when it is in
  (originalRank, destRank], and stays otherwise; with a backlog ranked 1..5 and the
  rank-4 card moved to rank 1, the rank-5 card stays. On the code, in both files, the
  rank-5 card goes to rank 6.
\<close>

theorem same_lane_move_4_to_1_shifts_rank_5:
  "put_part_000 backlog5 (Some 4) None (Some 1)
     = ([Send 200 (Clients [card 1 ''backlog'' 2, card 2 ''backlog'' 3, card 3 ''backlog'' 4,
                            card 4 ''backlog'' 1, card 5 ''backlog'' 6])],
        [card 1 ''backlog'' 2, card 2 ''backlog'' 3, card 3 ''backlog'' 4,
         card 4 ''backlog'' 1, card 5 ''backlog'' 6])
   \<and> put_server_js backlog5 (Some 4) None (Some 1)
     = ([Send 200 (Clients [card 1 ''backlog'' 2, card 2 ''backlog'' 3, card 3 ''backlog'' 4,
                            card 4 ''backlog'' 1, card 5 ''backlog'' 6])],
        [card 1 ''backlog'' 2, card 2 ''backlog'' 3, card 3 ''backlog'' 4,
         card 4 ''backlog'' 1, card 5 ''backlog'' 6])"
  by code_simp

text \<open>
  Claim C3: in a move to another lane the other cards of the lane left with rank at
  least originalRank go down by one, the cards of the lane entered with rank at least
  destRank go up by one, and a missing rank means the bottom of the lane entered. In
  src/unnamed/part\_000 the rank-1 card of the lane left goes down to rank 0 when it
  follows the target in table order; in src/server.js a request without a rank sends
  no response and moves nothing.
\<close>

theorem cross_lane_move_wrong_neighbours:
  "put_part_000 board3 (Some 1) (Some ''in-progress'') None
     = ([Send 200 (Clients [card 1 ''in-progress'' 2, card 2 ''backlog'' 0,
                            card 3 ''in-progress'' 1])],
        [card 1 ''in-progress'' 2, card 2 ''backlog'' 0, card 3 ''in-progress'' 1])
   \<and> put_server_js board9 (Some 2) (Some ''in-progress'') None = ([], board9)"
  by code_simp

text \<open>
  Claim C4: a request for the current lane and the current rank, or for no rank and
  no other lane, returns the list as it was and changes no rank. src/unnamed/part\_000
  does so; src/server.js changes nothing but returns nothing either: it sends no
  response.
\<close>

theorem no_op_sends_nothing_in_server_js:
  "put_server_js backlog3 (Some 2) None (Some 2) = ([], backlog3)
   \<and> put_server_js backlog3 (Some 2) (Some ''backlog'') None = ([], backlog3)
   \<and> put_part_000 backlog3 (Some 2) None (Some 2) = ([Send 200 (Clients backlog3)], backlog3)"
  by code_simp

text \<open>
  Claim C5: a requested rank beyond the lane entered is cut down to the bottom of
  that lane; rank 99 for a lane of 3 cards gives rank 4. src/unnamed/part\_000 does
  so; src/server.js stores the card at rank 99.
\<close>

theorem rank_99_not_clamped_in_server_js:
  "put_server_js board9 (Some 2) (Some ''in-progress'') (Some 99)
     = ([Send 200 (Clients [card 1 ''backlog'' 1, card 2 ''in-progress'' 99,
                            card 3 ''backlog'' 2, card 4 ''backlog'' 3, card 5 ''backlog'' 4,
                            card 6 ''in-progress'' 1, card 7 ''in-progress'' 2,
                            card 8 ''in-progress'' 3, card 9 ''complete'' 1])],
        [card 1 ''backlog'' 1, card 2 ''in-progress'' 99, card 3 ''backlog'' 2,
         card 4 ''backlog'' 3, card 5 ''backlog'' 4, card 6 ''in-progress'' 1,
         card 7 ''in-progress'' 2, card 8 ''in-progress'' 3, card 9 ''complete'' 1])
   \<and> map priority (snd (put_part_000 board9 (Some 2) (Some ''in-progress'') (Some 99)))
     = [1, 4, 2, 3, 4, 1, 2, 3, 1]"
  by code_simp

text \<open>
  Claim C8: the list an update returns differs from the stored one only in the lane
  and rank of the target and in the ranks of the shifted neighbours; ids, names and
  descriptions stay, third lanes stay, no item is created or deleted. The parts on
  ids, names, descriptions, third lanes and the number of items hold (lemma
  \<open>update_frame\<close>). The first part fails on the code: in both files the move of the
  rank-4 card of a backlog ranked 1..5 to rank 1 changes the rank-5 card, which is
  neither the target nor in [1, 4); in src/unnamed/part\_000 the move of the rank-2
  backlog card of \<open>board3\<close> to in-progress changes the rank-1 backlog card, which is
  below the rank of the target.
\<close>

theorem update_changes_cards_that_are_no_neighbours:
  "fst (put_part_000 backlog5 (Some 4) None (Some 1))
     = [Send 200 (Clients [card 1 ''backlog'' 2, card 2 ''backlog'' 3, card 3 ''backlog'' 4,
                           card 4 ''backlog'' 1, card 5 ''backlog'' 6])]
   \<and> fst (put_server_js backlog5 (Some 4) None (Some 1))
     = [Send 200 (Clients [card 1 ''backlog'' 2, card 2 ''backlog'' 3, card 3 ''backlog'' 4,
                           card 4 ''backlog'' 1, card 5 ''backlog'' 6])]
   \<and> \<not> only_target_and_neighbours 4 ''backlog'' 4 ''backlog'' 1 backlog5
         [card 1 ''backlog'' 2, card 2 ''backlog'' 3, card 3 ''backlog'' 4,
          card 4 ''backlog'' 1, card 5 ''backlog'' 6]
   \<and> only_target_and_neighbours 4 ''backlog'' 4 ''backlog'' 1 backlog5
         [card 1 ''backlog'' 2, card 2 ''backlog'' 3, card 3 ''backlog'' 4,
          card 4 ''backlog'' 1, card 5 ''backlog'' 5]
   \<and> fst (put_part_000 board3 (Some 1) (Some ''in-progress'') None)
     = [Send 200 (Clients [card 1 ''in-progress'' 2, card 2 ''backlog'' 0,
                           card 3 ''in-progress'' 1])]
   \<and> \<not> only_target_and_neighbours 1 ''backlog'' 2 ''in-progress'' 2 board3
         [card 1 ''in-progress'' 2, card 2 ''backlog'' 0, card 3 ''in-progress'' 1]
   \<and> only_target_and_neighbours 1 ''backlog'' 2 ''in-progress'' 2 board3
         [card 1 ''in-progress'' 2, card 2 ''backlog'' 1, card 3 ''in-progress'' 1]"
  by code_simp

text \<open>
  Claim C7: moving a card from rank r1 to rank r2 inside its lane and back again
  restores the rank of every card of the lane. On the code, in both files, moving the
  rank-1 card of a backlog ranked 1, 2, 3 to rank 2 and back to rank 1 ends with the
  ranks 1, 4, 5.
\<close>

theorem move_and_reverse_not_restored:
  "put_part_000 backlog3 (Some 1) None (Some 2)
     = ([Send 200 (Clients [card 1 ''backlog'' 2, card 2 ''backlog'' 3, card 3 ''backlog'' 4])],
        [card 1 ''backlog'' 2, card 2 ''backlog'' 3, card 3 ''backlog'' 4])
   \<and> put_part_000 [card 1 ''backlog'' 2, card 2 ''backlog'' 3, card 3 ''backlog'' 4]
        (Some 1) None (Some 1)
     = ([Send 200 (Clients [card 1 ''backlog'' 1, card 2 ''backlog'' 4, card 3 ''backlog'' 5])],
        [card 1 ''backlog'' 1, card 2 ''backlog'' 4, card 3 ''backlog'' 5])
   \<and> put_server_js backlog3 (Some 1) None (Some 2)
     = ([Send 200 (Clients [card 1 ''backlog'' 2, card 2 ''backlog'' 3, card 3 ''backlog'' 4])],
        [card 1 ''backlog'' 2, card 2 ''backlog'' 3, card 3 ''backlog'' 4])
   \<and> put_server_js [card 1 ''backlog'' 2, card 2 ''backlog'' 3, card 3 ''backlog'' 4]
        (Some 1) None (Some 1)
     = ([Send 200 (Clients [card 1 ''backlog'' 1, card 2 ''backlog'' 4, card 3 ''backlog'' 5])],
        [card 1 ''backlog'' 1, card 2 ''backlog'' 4, card 3 ''backlog'' 5])
   \<and> [card 1 ''backlog'' 1, card 2 ''backlog'' 4, card 3 ''backlog'' 5] \<noteq> backlog3"
  by code_simp

end
